theory Spec2Isabelle
  imports Main "HOL-Library.Word"
begin

section \<open>Stub definitions for PostgreSQL server symbols (scripts/pg_stub.c)\<close>

text \<open>
  The translation unit defines thirteen global objects and twenty-three functions.
  No function calls another, none reads a global, and exactly one statement of the
  whole file stores to memory: \<^verbatim>\<open>if (isnull) *isnull = 1;\<close> in
  \<^verbatim>\<open>SPI_getbinval\<close>. Every function is modelled as a state transformer
  that returns either a fault or its return value together with the state it leaves, so
  that "does not touch memory" is a theorem about the model and not a property of its
  type.
\<close>

subsection \<open>C types of the LP64 target\<close>

type_synonym addr = "64 word"      \<comment> \<open>\<^verbatim>\<open>void *\<close>, \<^verbatim>\<open>char *\<close>, \<^verbatim>\<open>int *\<close>\<close>
type_synonym size_t = "64 word"
type_synonym c_int = "32 word"     \<comment> \<open>\<^verbatim>\<open>int\<close>, read with \<open>sint\<close>\<close>
type_synonym c_long = "64 word"    \<comment> \<open>\<^verbatim>\<open>long\<close>\<close>
type_synonym int32_t = "32 word"
type_synonym uint32_t = "32 word"
type_synonym uint64_t = "64 word"

abbreviation NULL :: addr where
  "NULL \<equiv> 0"

text \<open>
  The trailing arguments of a variadic function (\<^verbatim>\<open>const char *fmt, ...\<close>),
  after the default argument promotions. A \<^verbatim>\<open>double\<close> is carried as its bit
  pattern: the stubs never look at it.
\<close>

datatype vararg =
    VA_int c_int
  | VA_long c_long
  | VA_ptr addr
  | VA_double "64 word"

subsection \<open>Program state\<close>

text \<open>
  The globals of the file, in the order of their definitions (lines 32--44 and
  112--113).
\<close>

record shim_globals =
  CacheMemoryContext :: addr
  CurrentMemoryContext :: addr
  CurTransactionContext :: addr
  ErrorContext :: addr
  MessageContext :: addr
  PortalContext :: addr
  PostmasterContext :: addr
  TopMemoryContext :: addr
  TopTransactionContext :: addr
  error_context_stack :: addr
  PG_exception_stack :: addr
  SPI_processed :: uint64_t
  SPI_tuptable :: addr

text \<open>
  The state adds the caller's memory of \<^verbatim>\<open>int\<close> objects: \<open>int_mem s p\<close> is
  \<open>Some v\<close> when an \<^verbatim>\<open>int\<close> holding \<open>v\<close> lives at address \<open>p\<close>, and
  \<open>None\<close> when no \<^verbatim>\<open>int\<close> object lives there. Memory is split by type: the
  globals are \<^verbatim>\<open>void *\<close> and \<^verbatim>\<open>uint64_t\<close> objects, and an
  \<^verbatim>\<open>int *\<close> that is valid for a store never points into one of them.
  The characters behind a \<^verbatim>\<open>const char *\<close> argument are never read by any
  function of the file and are not part of the model.
\<close>

record state = shim_globals +
  int_mem :: "addr \<rightharpoonup> c_int"

text \<open>The state right after the library is loaded, around the caller's memory \<open>m\<close>.\<close>

definition load :: "(addr \<rightharpoonup> c_int) \<Rightarrow> state" where
  "load m =
     \<lparr> CacheMemoryContext = NULL,
       CurrentMemoryContext = NULL,
       CurTransactionContext = NULL,
       ErrorContext = NULL,
       MessageContext = NULL,
       PortalContext = NULL,
       PostmasterContext = NULL,
       TopMemoryContext = NULL,
       TopTransactionContext = NULL,
       error_context_stack = NULL,
       PG_exception_stack = NULL,
       SPI_processed = 0,
       SPI_tuptable = NULL,
       int_mem = m \<rparr>"

text \<open>
  A store through a pointer that addresses no \<^verbatim>\<open>int\<close> object is undefined
  behaviour in C; the model makes it a fault.
\<close>

datatype fault = Invalid_store addr

definition valid_int_ptr :: "state \<Rightarrow> addr \<Rightarrow> bool" where
  "valid_int_ptr s p = (case int_mem s p of None \<Rightarrow> False | Some v \<Rightarrow> True)"

definition store_int :: "addr \<Rightarrow> c_int \<Rightarrow> state \<Rightarrow> fault + state" where
  "store_int p v s =
     (case int_mem s p of
        None \<Rightarrow> Inl (Invalid_store p)
      | Some old \<Rightarrow> Inr (s\<lparr>int_mem := (int_mem s)(p \<mapsto> v)\<rparr>))"

subsection \<open>Memory allocation and memory-context functions\<close>

definition palloc0 :: "size_t \<Rightarrow> state \<Rightarrow> fault + addr \<times> state" where
  "palloc0 sz s = Inr (NULL, s)"

definition AllocSetContextCreateInternal ::
    "addr \<Rightarrow> addr \<Rightarrow> size_t \<Rightarrow> size_t \<Rightarrow> size_t \<Rightarrow> state \<Rightarrow> fault + addr \<times> state" where
  "AllocSetContextCreateInternal parent name minContextSize initBlockSize maxBlockSize s =
     Inr (NULL, s)"

definition MemoryContextDelete :: "addr \<Rightarrow> state \<Rightarrow> fault + unit \<times> state" where
  "MemoryContextDelete ctx s = Inr ((), s)"

definition MemoryContextGetParent :: "addr \<Rightarrow> state \<Rightarrow> fault + addr \<times> state" where
  "MemoryContextGetParent ctx s = Inr (NULL, s)"

definition pfree :: "addr \<Rightarrow> state \<Rightarrow> fault + unit \<times> state" where
  "pfree p s = Inr ((), s)"

subsection \<open>Error data\<close>

definition CopyErrorData :: "state \<Rightarrow> fault + addr \<times> state" where
  "CopyErrorData s = Inr (NULL, s)"

definition FreeErrorData :: "addr \<Rightarrow> state \<Rightarrow> fault + unit \<times> state" where
  "FreeErrorData edata s = Inr ((), s)"

subsection \<open>Error reporting functions\<close>

definition errcode :: "c_int \<Rightarrow> state \<Rightarrow> fault + c_int \<times> state" where
  "errcode sqlerrcode s = Inr (0, s)"

definition errmsg :: "addr \<Rightarrow> vararg list \<Rightarrow> state \<Rightarrow> fault + c_int \<times> state" where
  "errmsg fmt va s = Inr (0, s)"

definition errdetail :: "addr \<Rightarrow> vararg list \<Rightarrow> state \<Rightarrow> fault + c_int \<times> state" where
  "errdetail fmt va s = Inr (0, s)"

definition errhint :: "addr \<Rightarrow> vararg list \<Rightarrow> state \<Rightarrow> fault + c_int \<times> state" where
  "errhint fmt va s = Inr (0, s)"

definition errcontext_msg :: "addr \<Rightarrow> vararg list \<Rightarrow> state \<Rightarrow> fault + c_int \<times> state" where
  "errcontext_msg fmt va s = Inr (0, s)"

definition errstart :: "c_int \<Rightarrow> addr \<Rightarrow> state \<Rightarrow> fault + c_int \<times> state" where
  "errstart elevel domain s = Inr (0, s)"

definition errfinish :: "addr \<Rightarrow> c_int \<Rightarrow> addr \<Rightarrow> state \<Rightarrow> fault + unit \<times> state" where
  "errfinish filename lineno funcname s = Inr ((), s)"

subsection \<open>Transaction and type helpers\<close>

definition GetCurrentTransactionIdIfAny :: "state \<Rightarrow> fault + uint32_t \<times> state" where
  "GetCurrentTransactionIdIfAny s = Inr (0, s)"

definition IsBinaryCoercible :: "uint32_t \<Rightarrow> uint32_t \<Rightarrow> state \<Rightarrow> fault + c_int \<times> state" where
  "IsBinaryCoercible a b s = Inr (0, s)"

definition format_type_extended ::
    "uint32_t \<Rightarrow> int32_t \<Rightarrow> c_int \<Rightarrow> state \<Rightarrow> fault + addr \<times> state" where
  "format_type_extended oid typmod flags s = Inr (NULL, s)"

subsection \<open>SPI functions\<close>

definition SPI_connect :: "state \<Rightarrow> fault + c_int \<times> state" where
  "SPI_connect s = Inr (- 1, s)"

definition SPI_finish :: "state \<Rightarrow> fault + c_int \<times> state" where
  "SPI_finish s = Inr (- 1, s)"

definition SPI_execute :: "addr \<Rightarrow> c_int \<Rightarrow> c_long \<Rightarrow> state \<Rightarrow> fault + c_int \<times> state" where
  "SPI_execute cmd ro cnt s = Inr (- 1, s)"

definition SPI_execute_with_args ::
    "addr \<Rightarrow> c_int \<Rightarrow> addr \<Rightarrow> addr \<Rightarrow> addr \<Rightarrow> c_int \<Rightarrow> c_long \<Rightarrow> state
      \<Rightarrow> fault + c_int \<times> state" where
  "SPI_execute_with_args cmd nargs argtypes vals nulls ro cnt s = Inr (- 1, s)"

text \<open>
  \<^verbatim>\<open>if (isnull) *isnull = 1; return NULL;\<close> The store happens only under
  the null check, and it is the only store of the file.
\<close>

definition SPI_getbinval ::
    "addr \<Rightarrow> addr \<Rightarrow> c_int \<Rightarrow> addr \<Rightarrow> state \<Rightarrow> fault + addr \<times> state" where
  "SPI_getbinval tuple tupdesc fnumber isnull s =
     (case (if isnull \<noteq> NULL then store_int isnull 1 s else Inr s) of
        Inl f \<Rightarrow> Inl f
      | Inr s' \<Rightarrow> Inr (NULL, s'))"

definition SPI_gettypeid :: "addr \<Rightarrow> c_int \<Rightarrow> state \<Rightarrow> fault + uint32_t \<times> state" where
  "SPI_gettypeid tupdesc fnumber s = Inr (0, s)"

subsection \<open>Calls of any function of the file\<close>

text \<open>
  A call names a function of the file and carries one value for each of its
  parameters, in the order of the C prototype.
\<close>

datatype call =
    Call_palloc0 size_t
  | Call_AllocSetContextCreateInternal addr addr size_t size_t size_t
  | Call_MemoryContextDelete addr
  | Call_MemoryContextGetParent addr
  | Call_pfree addr
  | Call_CopyErrorData
  | Call_FreeErrorData addr
  | Call_errcode c_int
  | Call_errmsg addr "vararg list"
  | Call_errdetail addr "vararg list"
  | Call_errhint addr "vararg list"
  | Call_errcontext_msg addr "vararg list"
  | Call_errstart c_int addr
  | Call_errfinish addr c_int addr
  | Call_GetCurrentTransactionIdIfAny
  | Call_IsBinaryCoercible uint32_t uint32_t
  | Call_format_type_extended uint32_t int32_t c_int
  | Call_SPI_connect
  | Call_SPI_finish
  | Call_SPI_execute addr c_int c_long
  | Call_SPI_execute_with_args addr c_int addr addr addr c_int c_long
  | Call_SPI_getbinval addr addr c_int addr
  | Call_SPI_gettypeid addr c_int

datatype retval =
    Ret_void
  | Ret_ptr addr
  | Ret_int c_int
  | Ret_uint32 uint32_t

definition returning :: "('a \<Rightarrow> retval) \<Rightarrow> fault + 'a \<times> state \<Rightarrow> fault + retval \<times> state" where
  "returning k r = (case r of Inl f \<Rightarrow> Inl f | Inr (v, s') \<Rightarrow> Inr (k v, s'))"

primrec run :: "call \<Rightarrow> state \<Rightarrow> fault + retval \<times> state" where
  "run (Call_palloc0 sz) s = returning Ret_ptr (palloc0 sz s)"
| "run (Call_AllocSetContextCreateInternal parent name minContextSize initBlockSize maxBlockSize) s =
     returning Ret_ptr
       (AllocSetContextCreateInternal parent name minContextSize initBlockSize maxBlockSize s)"
| "run (Call_MemoryContextDelete ctx) s = returning (\<lambda>u. Ret_void) (MemoryContextDelete ctx s)"
| "run (Call_MemoryContextGetParent ctx) s = returning Ret_ptr (MemoryContextGetParent ctx s)"
| "run (Call_pfree p) s = returning (\<lambda>u. Ret_void) (pfree p s)"
| "run Call_CopyErrorData s = returning Ret_ptr (CopyErrorData s)"
| "run (Call_FreeErrorData edata) s = returning (\<lambda>u. Ret_void) (FreeErrorData edata s)"
| "run (Call_errcode sqlerrcode) s = returning Ret_int (errcode sqlerrcode s)"
| "run (Call_errmsg fmt va) s = returning Ret_int (errmsg fmt va s)"
| "run (Call_errdetail fmt va) s = returning Ret_int (errdetail fmt va s)"
| "run (Call_errhint fmt va) s = returning Ret_int (errhint fmt va s)"
| "run (Call_errcontext_msg fmt va) s = returning Ret_int (errcontext_msg fmt va s)"
| "run (Call_errstart elevel domain) s = returning Ret_int (errstart elevel domain s)"
| "run (Call_errfinish filename lineno funcname) s =
     returning (\<lambda>u. Ret_void) (errfinish filename lineno funcname s)"
| "run Call_GetCurrentTransactionIdIfAny s = returning Ret_uint32 (GetCurrentTransactionIdIfAny s)"
| "run (Call_IsBinaryCoercible a b) s = returning Ret_int (IsBinaryCoercible a b s)"
| "run (Call_format_type_extended oid typmod flags) s =
     returning Ret_ptr (format_type_extended oid typmod flags s)"
| "run Call_SPI_connect s = returning Ret_int (SPI_connect s)"
| "run Call_SPI_finish s = returning Ret_int (SPI_finish s)"
| "run (Call_SPI_execute cmd ro cnt) s = returning Ret_int (SPI_execute cmd ro cnt s)"
| "run (Call_SPI_execute_with_args cmd nargs argtypes vals nulls ro cnt) s =
     returning Ret_int (SPI_execute_with_args cmd nargs argtypes vals nulls ro cnt s)"
| "run (Call_SPI_getbinval tuple tupdesc fnumber isnull) s =
     returning Ret_ptr (SPI_getbinval tuple tupdesc fnumber isnull s)"
| "run (Call_SPI_gettypeid tupdesc fnumber) s = returning Ret_uint32 (SPI_gettypeid tupdesc fnumber s)"

text \<open>
  A sequence of calls, each started in the state the previous one left; the first fault
  ends it.
\<close>

fun run_all :: "call list \<Rightarrow> state \<Rightarrow> fault + state" where
  "run_all [] s = Inr s"
| "run_all (c # cs) s = (case run c s of Inl f \<Rightarrow> Inl f | Inr (r, s') \<Rightarrow> run_all cs s')"

text \<open>
  Well-typed arguments. Integer and \<^verbatim>\<open>size_t\<close> parameters accept every value of
  their type. A pointer parameter that the function never dereferences accepts every
  address. The one dereferenced parameter, \<^verbatim>\<open>int *isnull\<close>, is well typed when
  it is null or addresses an \<^verbatim>\<open>int\<close> object.
\<close>

definition wt_call :: "call \<Rightarrow> state \<Rightarrow> bool" where
  "wt_call c s =
     (case c of
        Call_SPI_getbinval tuple tupdesc fnumber isnull \<Rightarrow> isnull = NULL \<or> valid_int_ptr s isnull
      | _ \<Rightarrow> True)"

subsection \<open>The documented sentinels\<close>

text \<open>
  This table is written from the specification and not from the function bodies.
  Allocation-style functions "always return the null/empty representation";
  error-reporting functions "return a fixed sentinel (zero/false)"; the SPI status
  functions return "the fixed negative status" and the binary-value fetch "a null
  handle"; the file's header promises "a NULL pointer / zero return" for every other
  value-returning symbol. A \<^verbatim>\<open>void\<close> function returns nothing.
\<close>

primrec documented_sentinel :: "call \<Rightarrow> retval" where
  "documented_sentinel (Call_palloc0 sz) = Ret_ptr NULL"
| "documented_sentinel (Call_AllocSetContextCreateInternal parent name mn ini mx) = Ret_ptr NULL"
| "documented_sentinel (Call_MemoryContextDelete ctx) = Ret_void"
| "documented_sentinel (Call_MemoryContextGetParent ctx) = Ret_ptr NULL"
| "documented_sentinel (Call_pfree p) = Ret_void"
| "documented_sentinel Call_CopyErrorData = Ret_ptr NULL"
| "documented_sentinel (Call_FreeErrorData edata) = Ret_void"
| "documented_sentinel (Call_errcode sqlerrcode) = Ret_int 0"
| "documented_sentinel (Call_errmsg fmt va) = Ret_int 0"
| "documented_sentinel (Call_errdetail fmt va) = Ret_int 0"
| "documented_sentinel (Call_errhint fmt va) = Ret_int 0"
| "documented_sentinel (Call_errcontext_msg fmt va) = Ret_int 0"
| "documented_sentinel (Call_errstart elevel domain) = Ret_int 0"
| "documented_sentinel (Call_errfinish filename lineno funcname) = Ret_void"
| "documented_sentinel Call_GetCurrentTransactionIdIfAny = Ret_uint32 0"
| "documented_sentinel (Call_IsBinaryCoercible a b) = Ret_int 0"
| "documented_sentinel (Call_format_type_extended oid typmod flags) = Ret_ptr NULL"
| "documented_sentinel Call_SPI_connect = Ret_int (- 1)"
| "documented_sentinel Call_SPI_finish = Ret_int (- 1)"
| "documented_sentinel (Call_SPI_execute cmd ro cnt) = Ret_int (- 1)"
| "documented_sentinel (Call_SPI_execute_with_args cmd nargs argtypes vals nulls ro cnt) =
     Ret_int (- 1)"
| "documented_sentinel (Call_SPI_getbinval tuple tupdesc fnumber isnull) = Ret_ptr NULL"
| "documented_sentinel (Call_SPI_gettypeid tupdesc fnumber) = Ret_uint32 0"

text \<open>
  The failure signals the specification lists: a "null result", a "negative/zero
  status code". A returned value that is none of them would look like a success.
\<close>

primrec failure_signal :: "retval \<Rightarrow> bool" where
  "failure_signal Ret_void = True"
| "failure_signal (Ret_ptr p) = (p = NULL)"
| "failure_signal (Ret_int i) = (sint i \<le> 0)"
| "failure_signal (Ret_uint32 u) = (u = 0)"

text \<open>Concrete inputs used to exercise the theorems below.\<close>

definition mem0 :: "addr \<rightharpoonup> c_int" where
  "mem0 = Map.empty(8 \<mapsto> 0)"

definition mem1 :: "addr \<rightharpoonup> c_int" where
  "mem1 = Map.empty(8 \<mapsto> 1)"

section \<open>Properties\<close>

subsection \<open>Auxiliary facts\<close>

lemmas stub_defs =
  palloc0_def AllocSetContextCreateInternal_def MemoryContextDelete_def
  MemoryContextGetParent_def pfree_def CopyErrorData_def FreeErrorData_def
  errcode_def errmsg_def errdetail_def errhint_def errcontext_msg_def errstart_def
  errfinish_def GetCurrentTransactionIdIfAny_def IsBinaryCoercible_def
  format_type_extended_def SPI_connect_def SPI_finish_def SPI_execute_def
  SPI_execute_with_args_def SPI_gettypeid_def

lemma valid_int_ptr_dom: "valid_int_ptr s p = (p \<in> dom (int_mem s))"
  by (simp add: valid_int_ptr_def dom_def split: option.splits)

lemma store_int_valid:
  "valid_int_ptr s p \<Longrightarrow> store_int p v s = Inr (s\<lparr>int_mem := (int_mem s)(p \<mapsto> v)\<rparr>)"
  by (simp add: valid_int_ptr_def store_int_def split: option.splits)

lemma SPI_getbinval_null: "SPI_getbinval tuple tupdesc fnumber NULL s = Inr (NULL, s)"
  by (simp add: SPI_getbinval_def)

lemma SPI_getbinval_valid:
  assumes "valid_int_ptr s isnull" and "isnull \<noteq> NULL"
  shows "SPI_getbinval tuple tupdesc fnumber isnull s =
           Inr (NULL, s\<lparr>int_mem := (int_mem s)(isnull \<mapsto> 1)\<rparr>)"
  using assms by (simp add: SPI_getbinval_def store_int_valid)

text \<open>Every call but a binary-value fetch returns in the state it started in.\<close>

lemma run_not_getbinval:
  assumes "\<And>tuple tupdesc fnumber isnull. c \<noteq> Call_SPI_getbinval tuple tupdesc fnumber isnull"
  shows "run c s = Inr (documented_sentinel c, s)"
proof (cases c)
  case (Call_SPI_getbinval tuple tupdesc fnumber isnull)
  with assms show ?thesis by blast
qed (simp_all add: returning_def stub_defs)

lemma run_getbinval_wt:
  assumes "wt_call (Call_SPI_getbinval tuple tupdesc fnumber isnull) s"
  shows "run (Call_SPI_getbinval tuple tupdesc fnumber isnull) s =
           Inr (Ret_ptr NULL,
                if isnull \<noteq> NULL then s\<lparr>int_mem := (int_mem s)(isnull \<mapsto> 1)\<rparr> else s)"
proof (cases "isnull = NULL")
  case True
  then show ?thesis by (simp add: returning_def SPI_getbinval_null)
next
  case False
  with assms have "valid_int_ptr s isnull" by (simp add: wt_call_def)
  with False show ?thesis by (simp add: returning_def SPI_getbinval_valid)
qed

text \<open>
  What a well-typed call does, in one statement: it returns the documented sentinel, and
  the state it leaves differs from the one it found at most in the contents of the
  \<^verbatim>\<open>int\<close> memory, never in its domain.
\<close>

lemma run_wt:
  assumes "wt_call c s"
  shows "\<exists>m. run c s = Inr (documented_sentinel c, s\<lparr>int_mem := m\<rparr>)
           \<and> dom m = dom (int_mem s)"
proof (cases "\<exists>tuple tupdesc fnumber isnull. c = Call_SPI_getbinval tuple tupdesc fnumber isnull")
  case False
  then have "run c s = Inr (documented_sentinel c, s\<lparr>int_mem := int_mem s\<rparr>)"
    by (simp add: run_not_getbinval)
  then show ?thesis by blast
next
  case True
  then obtain tuple tupdesc fnumber isnull
    where c: "c = Call_SPI_getbinval tuple tupdesc fnumber isnull" by blast
  let ?m = "if isnull \<noteq> NULL then (int_mem s)(isnull \<mapsto> 1) else int_mem s"
  from assms c have "isnull \<noteq> NULL \<Longrightarrow> isnull \<in> dom (int_mem s)"
    by (simp add: wt_call_def valid_int_ptr_dom)
  then have "dom ?m = dom (int_mem s)" by auto
  moreover from run_getbinval_wt [of tuple tupdesc fnumber isnull s] assms c
  have "run c s = Inr (documented_sentinel c, s\<lparr>int_mem := ?m\<rparr>)"
    by (cases "isnull = NULL") simp_all
  ultimately show ?thesis by blast
qed

lemma truncate_int_mem:
  "shim_globals.truncate (s\<lparr>int_mem := m\<rparr>) = shim_globals.truncate (s :: state)"
  by (simp add: shim_globals.truncate_def)

lemma wt_call_dom:
  assumes "dom (int_mem s') = dom (int_mem s)"
  shows "wt_call c s' = wt_call c s"
proof (cases c)
  case (Call_SPI_getbinval tuple tupdesc fnumber isnull)
  with assms show ?thesis by (simp add: wt_call_def valid_int_ptr_dom)
qed (simp_all add: wt_call_def)

lemma run_all_wt:
  "list_all (\<lambda>c. wt_call c s) cs \<Longrightarrow>
     \<exists>m. run_all cs s = Inr (s\<lparr>int_mem := m\<rparr>) \<and> dom m = dom (int_mem s)"
proof (induction cs arbitrary: s)
  case Nil
  have "run_all [] s = Inr (s\<lparr>int_mem := int_mem s\<rparr>)" by simp
  then show ?case by blast
next
  case (Cons c cs)
  then have "wt_call c s" by simp
  then obtain m where m: "run c s = Inr (documented_sentinel c, s\<lparr>int_mem := m\<rparr>)"
    and d: "dom m = dom (int_mem s)"
    using run_wt by blast
  from d have "\<And>c'. wt_call c' (s\<lparr>int_mem := m\<rparr>) = wt_call c' s"
    by (intro wt_call_dom) simp
  with Cons.prems have "list_all (\<lambda>c. wt_call c (s\<lparr>int_mem := m\<rparr>)) cs" by simp
  from Cons.IH [OF this] obtain m'
    where "run_all cs (s\<lparr>int_mem := m\<rparr>) = Inr (s\<lparr>int_mem := m, int_mem := m'\<rparr>)"
      and "dom m' = dom (int_mem (s\<lparr>int_mem := m\<rparr>))"
    by blast
  with m d have "run_all (c # cs) s = Inr (s\<lparr>int_mem := m'\<rparr>) \<and> dom m' = dom (int_mem s)"
    by simp
  then show ?case by blast
qed


subsection \<open>SPI status functions\<close>

text \<open>
  C1. For every input, the SPI status-returning stand-ins return the fixed negative
  status -1: \<open>SPI_connect\<close> and \<open>SPI_finish\<close> unconditionally, \<open>SPI_execute\<close> and
  \<open>SPI_execute_with_args\<close> for every command string, read-only flag, argument list
  and row limit. The state is any state, so also any contents of the caller's memory.
\<close>

theorem SPI_status_functions_return_minus_one:
  "SPI_connect s = Inr (- 1, s)
   \<and> SPI_finish s = Inr (- 1, s)
   \<and> SPI_execute cmd ro cnt s = Inr (- 1, s)
   \<and> SPI_execute_with_args cmd' nargs argtypes vals nulls ro' cnt' s = Inr (- 1, s)
   \<and> sint (- 1 :: c_int) = - 1"
  by (simp add: SPI_connect_def SPI_finish_def SPI_execute_def SPI_execute_with_args_def)

subsection \<open>The binary-value fetch\<close>

text \<open>
  C2. For every tuple, tuple descriptor and field number, \<open>SPI_getbinval\<close> returns a
  null handle and sets its is-null out-parameter to true: where \<open>isnull\<close> addresses the
  caller's \<^verbatim>\<open>int\<close>, that \<^verbatim>\<open>int\<close> holds 1 after the call.
\<close>

theorem SPI_getbinval_returns_null_and_sets_isnull:
  assumes "valid_int_ptr s isnull" and "isnull \<noteq> NULL"
  shows "\<exists>s'. SPI_getbinval tuple tupdesc fnumber isnull s = Inr (NULL, s')
           \<and> int_mem s' isnull = Some 1"
  using assms by (simp add: SPI_getbinval_valid)

theorem SPI_getbinval_returns_null_and_sets_isnull_witness:
  "valid_int_ptr (load mem0) 8 \<and> (8 :: addr) \<noteq> NULL
   \<and> (\<exists>s'. SPI_getbinval 16 24 1 8 (load mem0) = Inr (NULL, s') \<and> int_mem s' 8 = Some 1)"
proof -
  have v: "valid_int_ptr (load mem0) 8" by (simp add: valid_int_ptr_def load_def mem0_def)
  have n: "(8 :: addr) \<noteq> NULL" by simp
  from SPI_getbinval_returns_null_and_sets_isnull [OF v n, of 16 24 1] v n
  show ?thesis by blast
qed

text \<open>
  C9. Called with a null \<open>isnull\<close>, \<open>SPI_getbinval\<close> performs no store (the state it
  leaves is the state it found) and still returns a null handle.
\<close>

theorem SPI_getbinval_null_isnull_no_store:
  "SPI_getbinval tuple tupdesc fnumber NULL s = Inr (NULL, s)"
  by (simp add: SPI_getbinval_def)

subsection \<open>Error reporting, allocation, type helpers\<close>

text \<open>
  C4. Every error-reporting stand-in (\<open>errcode\<close>, \<open>errmsg\<close>, \<open>errdetail\<close>, \<open>errhint\<close>,
  \<open>errcontext_msg\<close>, \<open>errstart\<close>) returns the fixed sentinel 0 for all arguments, and
  \<open>errfinish\<close> returns without any effect.
\<close>

theorem error_reporting_functions_return_zero:
  "errcode sqlerrcode s = Inr (0, s)
   \<and> errmsg fmt1 va1 s = Inr (0, s)
   \<and> errdetail fmt2 va2 s = Inr (0, s)
   \<and> errhint fmt3 va3 s = Inr (0, s)
   \<and> errcontext_msg fmt4 va4 s = Inr (0, s)
   \<and> errstart elevel domain s = Inr (0, s)
   \<and> errfinish filename lineno funcname s = Inr ((), s)"
  by (simp add: errcode_def errmsg_def errdetail_def errhint_def errcontext_msg_def
      errstart_def errfinish_def)

text \<open>
  C5. Every allocation-style stand-in (\<open>palloc0\<close>, \<open>AllocSetContextCreateInternal\<close>,
  \<open>CopyErrorData\<close>, \<open>MemoryContextGetParent\<close>, \<open>format_type_extended\<close>) returns the
  null pointer for every argument tuple.
\<close>

theorem allocation_functions_return_null:
  "palloc0 sz s = Inr (NULL, s)
   \<and> AllocSetContextCreateInternal parent name minContextSize initBlockSize maxBlockSize s
       = Inr (NULL, s)
   \<and> CopyErrorData s = Inr (NULL, s)
   \<and> MemoryContextGetParent ctx s = Inr (NULL, s)
   \<and> format_type_extended oid typmod flags s = Inr (NULL, s)"
  by (simp add: palloc0_def AllocSetContextCreateInternal_def CopyErrorData_def
      MemoryContextGetParent_def format_type_extended_def)

text \<open>
  C10. \<open>IsBinaryCoercible\<close> returns 0 (false) for every pair of type OIDs, also when
  the two OIDs are equal.
\<close>

theorem IsBinaryCoercible_always_false:
  "IsBinaryCoercible a b s = Inr (0, s) \<and> IsBinaryCoercible a a s = Inr (0, s)"
  by (simp add: IsBinaryCoercible_def)

subsection \<open>All stand-ins at once\<close>

text \<open>
  C3. For every stand-in function and every well-typed argument tuple, the call returns
  (it does not fault), the value returned is the documented fixed sentinel of that
  function, and that value is a failure signal: never a non-null pointer, never a
  positive status.
\<close>

theorem stand_in_returns_documented_sentinel:
  assumes "wt_call c s"
  shows "\<exists>r s'. run c s = Inr (r, s') \<and> r = documented_sentinel c \<and> failure_signal r"
proof -
  from assms obtain m where "run c s = Inr (documented_sentinel c, s\<lparr>int_mem := m\<rparr>)"
    using run_wt by blast
  moreover have "failure_signal (documented_sentinel c)"
    by (cases c) simp_all
  ultimately show ?thesis by blast
qed

theorem stand_in_returns_documented_sentinel_witness:
  "wt_call (Call_SPI_getbinval 16 24 1 8) (load mem0)
   \<and> (\<exists>r s'. run (Call_SPI_getbinval 16 24 1 8) (load mem0) = Inr (r, s')
         \<and> r = documented_sentinel (Call_SPI_getbinval 16 24 1 8) \<and> failure_signal r)"
proof -
  have w: "wt_call (Call_SPI_getbinval 16 24 1 8) (load mem0)"
    by (simp add: wt_call_def valid_int_ptr_def load_def mem0_def)
  from stand_in_returns_documented_sentinel [OF w] w show ?thesis by blast
qed

text \<open>
  C7. Every stand-in is deterministic: for every argument tuple, two calls, started in
  any two states (two runs, or two moments of one run), both return, and return the
  same value.
\<close>

theorem stand_in_result_independent_of_state:
  assumes "wt_call c s1" and "wt_call c s2"
  shows "\<exists>v s1' s2'. run c s1 = Inr (v, s1') \<and> run c s2 = Inr (v, s2')"
proof -
  from assms(1) obtain m1 where "run c s1 = Inr (documented_sentinel c, s1\<lparr>int_mem := m1\<rparr>)"
    using run_wt by blast
  moreover
  from assms(2) obtain m2 where "run c s2 = Inr (documented_sentinel c, s2\<lparr>int_mem := m2\<rparr>)"
    using run_wt by blast
  ultimately show ?thesis by blast
qed

theorem stand_in_result_independent_of_state_witness:
  "wt_call (Call_SPI_getbinval 16 24 1 8) (load mem0)
   \<and> wt_call (Call_SPI_getbinval 16 24 1 8) ((load mem1)\<lparr>SPI_processed := 7\<rparr>)
   \<and> (\<exists>v s1' s2'. run (Call_SPI_getbinval 16 24 1 8) (load mem0) = Inr (v, s1')
         \<and> run (Call_SPI_getbinval 16 24 1 8) ((load mem1)\<lparr>SPI_processed := 7\<rparr>) = Inr (v, s2'))"
proof -
  have w1: "wt_call (Call_SPI_getbinval 16 24 1 8) (load mem0)"
    by (simp add: wt_call_def valid_int_ptr_def load_def mem0_def)
  have w2: "wt_call (Call_SPI_getbinval 16 24 1 8) ((load mem1)\<lparr>SPI_processed := 7\<rparr>)"
    by (simp add: wt_call_def valid_int_ptr_def load_def mem1_def)
  from stand_in_result_independent_of_state [OF w1 w2] w1 w2 show ?thesis by blast
qed

subsection \<open>Globals and the frame of a call\<close>

text \<open>
  C6. Every global defined by the shim (the nine memory-context pointers,
  \<open>error_context_stack\<close>, \<open>PG_exception_stack\<close>, \<open>SPI_tuptable\<close> and the counter
  \<open>SPI_processed\<close>) is null or zero after loading, and no stand-in call mutates any of
  them: a well-typed call returns and leaves every global as it found it, and so does
  every sequence of well-typed calls made after loading. (\<open>shim_globals.truncate\<close> is
  the record of the thirteen globals of a state.)
\<close>

theorem globals_null_and_never_mutated:
  "shim_globals.truncate (load m) =
     \<lparr> CacheMemoryContext = NULL, CurrentMemoryContext = NULL, CurTransactionContext = NULL,
       ErrorContext = NULL, MessageContext = NULL, PortalContext = NULL,
       PostmasterContext = NULL, TopMemoryContext = NULL, TopTransactionContext = NULL,
       error_context_stack = NULL, PG_exception_stack = NULL, SPI_processed = 0,
       SPI_tuptable = NULL \<rparr>
   \<and> (wt_call c s \<longrightarrow>
        (\<exists>r s'. run c s = Inr (r, s') \<and> shim_globals.truncate s' = shim_globals.truncate s))
   \<and> (list_all (\<lambda>c. wt_call c (load m)) cs \<longrightarrow>
        (\<exists>s'. run_all cs (load m) = Inr s'
           \<and> shim_globals.truncate s' = shim_globals.truncate (load m)))"
proof (intro conjI impI)
  show "shim_globals.truncate (load m) =
     \<lparr> CacheMemoryContext = NULL, CurrentMemoryContext = NULL, CurTransactionContext = NULL,
       ErrorContext = NULL, MessageContext = NULL, PortalContext = NULL,
       PostmasterContext = NULL, TopMemoryContext = NULL, TopTransactionContext = NULL,
       error_context_stack = NULL, PG_exception_stack = NULL, SPI_processed = 0,
       SPI_tuptable = NULL \<rparr>"
    by (simp add: load_def shim_globals.truncate_def)
next
  assume "wt_call c s"
  then obtain m' where "run c s = Inr (documented_sentinel c, s\<lparr>int_mem := m'\<rparr>)"
    using run_wt by blast
  moreover have "shim_globals.truncate (s\<lparr>int_mem := m'\<rparr>) = shim_globals.truncate s"
    by (rule truncate_int_mem)
  ultimately show "\<exists>r s'. run c s = Inr (r, s') \<and> shim_globals.truncate s' = shim_globals.truncate s"
    by blast
next
  assume "list_all (\<lambda>c. wt_call c (load m)) cs"
  then obtain m' where "run_all cs (load m) = Inr ((load m)\<lparr>int_mem := m'\<rparr>)"
    using run_all_wt by blast
  moreover have "shim_globals.truncate ((load m)\<lparr>int_mem := m'\<rparr>) = shim_globals.truncate (load m)"
    by (rule truncate_int_mem)
  ultimately show "\<exists>s'. run_all cs (load m) = Inr s'
      \<and> shim_globals.truncate s' = shim_globals.truncate (load m)"
    by blast
qed

theorem globals_null_and_never_mutated_witness:
  "wt_call (Call_SPI_getbinval 16 24 1 8) (load mem0)
   \<and> (\<exists>r s'. run (Call_SPI_getbinval 16 24 1 8) (load mem0) = Inr (r, s')
         \<and> shim_globals.truncate s' = shim_globals.truncate (load mem0))
   \<and> list_all (\<lambda>c. wt_call c (load mem0))
        [Call_SPI_connect, Call_SPI_getbinval 16 24 1 8, Call_pfree 8]
   \<and> (\<exists>s'. run_all [Call_SPI_connect, Call_SPI_getbinval 16 24 1 8, Call_pfree 8] (load mem0)
              = Inr s'
         \<and> shim_globals.truncate s' = shim_globals.truncate (load mem0))"
proof -
  have w: "wt_call (Call_SPI_getbinval 16 24 1 8) (load mem0)"
    by (simp add: wt_call_def valid_int_ptr_def load_def mem0_def)
  have ws: "list_all (\<lambda>c. wt_call c (load mem0))
        [Call_SPI_connect, Call_SPI_getbinval 16 24 1 8, Call_pfree 8]"
    by (simp add: wt_call_def valid_int_ptr_def load_def mem0_def)
  from globals_null_and_never_mutated
    [of mem0 "Call_SPI_getbinval 16 24 1 8" "load mem0"
        "[Call_SPI_connect, Call_SPI_getbinval 16 24 1 8, Call_pfree 8]"] w ws
  show ?thesis by blast
qed

text \<open>
  C8 as stated (a call modifies no caller-supplied location such as an out-parameter)
  fails: the binary-value fetch, given the address of an \<^verbatim>\<open>int\<close> that holds
  0, leaves 1 there.
\<close>

theorem SPI_getbinval_writes_out_parameter:
  "run (Call_SPI_getbinval 16 24 1 8) (load mem0) = Inr (Ret_ptr NULL, load mem1)
   \<and> int_mem (load mem0) 8 = Some 0
   \<and> int_mem (load mem1) 8 = Some 1"
  by (simp add: returning_def SPI_getbinval_def store_int_def load_def mem0_def mem1_def)

text \<open>
  C8, amended. Every function of the shim other than \<open>SPI_getbinval\<close> returns in the
  very state it was called in. \<open>SPI_getbinval\<close> called with a null \<open>isnull\<close> does the
  same; called with the address of an \<^verbatim>\<open>int\<close>, it changes that one
  \<^verbatim>\<open>int\<close> to 1 and nothing else: no global and no other location.
\<close>

theorem side_effects_confined_to_isnull:
  "((\<forall>tuple tupdesc fnumber isnull. c \<noteq> Call_SPI_getbinval tuple tupdesc fnumber isnull) \<longrightarrow>
      (\<exists>r. run c s = Inr (r, s)))
   \<and> (\<exists>r. run (Call_SPI_getbinval tuple tupdesc fnumber NULL) s = Inr (r, s))
   \<and> (valid_int_ptr s p \<and> p \<noteq> NULL \<longrightarrow>
        (\<exists>r s'. run (Call_SPI_getbinval tuple tupdesc fnumber p) s = Inr (r, s')
           \<and> s' = s\<lparr>int_mem := (int_mem s)(p \<mapsto> 1)\<rparr>
           \<and> shim_globals.truncate s' = shim_globals.truncate s
           \<and> (\<forall>q. q \<noteq> p \<longrightarrow> int_mem s' q = int_mem s q)))"
proof (intro conjI impI)
  assume "\<forall>tuple tupdesc fnumber isnull. c \<noteq> Call_SPI_getbinval tuple tupdesc fnumber isnull"
  then have "run c s = Inr (documented_sentinel c, s)"
    by (simp add: run_not_getbinval)
  then show "\<exists>r. run c s = Inr (r, s)" by blast
next
  show "\<exists>r. run (Call_SPI_getbinval tuple tupdesc fnumber NULL) s = Inr (r, s)"
    by (simp add: returning_def SPI_getbinval_null)
next
  assume "valid_int_ptr s p \<and> p \<noteq> NULL"
  then have "run (Call_SPI_getbinval tuple tupdesc fnumber p) s =
      Inr (Ret_ptr NULL, s\<lparr>int_mem := (int_mem s)(p \<mapsto> 1)\<rparr>)"
    by (simp add: returning_def SPI_getbinval_valid)
  moreover have "shim_globals.truncate (s\<lparr>int_mem := (int_mem s)(p \<mapsto> 1)\<rparr>) = shim_globals.truncate s"
    by (rule truncate_int_mem)
  moreover have "\<forall>q. q \<noteq> p \<longrightarrow> int_mem (s\<lparr>int_mem := (int_mem s)(p \<mapsto> 1)\<rparr>) q = int_mem s q"
    by simp
  ultimately show "\<exists>r s'. run (Call_SPI_getbinval tuple tupdesc fnumber p) s = Inr (r, s')
           \<and> s' = s\<lparr>int_mem := (int_mem s)(p \<mapsto> 1)\<rparr>
           \<and> shim_globals.truncate s' = shim_globals.truncate s
           \<and> (\<forall>q. q \<noteq> p \<longrightarrow> int_mem s' q = int_mem s q)"
    by blast
qed

theorem side_effects_confined_to_isnull_witness:
  "(\<forall>tuple tupdesc fnumber isnull.
       Call_SPI_execute 16 0 5 \<noteq> Call_SPI_getbinval tuple tupdesc fnumber isnull)
   \<and> (\<exists>r. run (Call_SPI_execute 16 0 5) (load mem0) = Inr (r, load mem0))
   \<and> valid_int_ptr (load mem0) 8 \<and> (8 :: addr) \<noteq> NULL
   \<and> (\<exists>r s'. run (Call_SPI_getbinval 16 24 1 8) (load mem0) = Inr (r, s')
         \<and> s' = (load mem0)\<lparr>int_mem := (int_mem (load mem0))(8 \<mapsto> 1)\<rparr>
         \<and> shim_globals.truncate s' = shim_globals.truncate (load mem0)
         \<and> int_mem s' 0 = int_mem (load mem0) 0)"
proof -
  have d: "\<forall>tuple tupdesc fnumber isnull.
       Call_SPI_execute 16 0 5 \<noteq> Call_SPI_getbinval tuple tupdesc fnumber isnull"
    by simp
  have v: "valid_int_ptr (load mem0) 8 \<and> (8 :: addr) \<noteq> NULL"
    by (simp add: valid_int_ptr_def load_def mem0_def)
  have n: "(0 :: addr) \<noteq> 8" by simp
  from side_effects_confined_to_isnull [of "Call_SPI_execute 16 0 5" "load mem0" 16 24 1 8] d
  have 1: "\<exists>r. run (Call_SPI_execute 16 0 5) (load mem0) = Inr (r, load mem0)"
    by blast
  from side_effects_confined_to_isnull [of "Call_SPI_execute 16 0 5" "load mem0" 16 24 1 8] v n
  have 2: "\<exists>r s'. run (Call_SPI_getbinval 16 24 1 8) (load mem0) = Inr (r, s')
         \<and> s' = (load mem0)\<lparr>int_mem := (int_mem (load mem0))(8 \<mapsto> 1)\<rparr>
         \<and> shim_globals.truncate s' = shim_globals.truncate (load mem0)
         \<and> int_mem s' 0 = int_mem (load mem0) 0"
    by blast
  from d 1 v 2 show ?thesis by blast
qed

end
